theory Spec2Isabelle
  imports Main "HOL-Library.Sublist" "HOL-Library.Char_ord" "HOL-Library.List_Lexorder"
    "HOL-Library.AList"
begin

section \<open>Python values, exceptions and script runs\<close>

text \<open>
  The values the three modules pass around are the ones JSON has: \<^verbatim>\<open>None\<close>, booleans,
  numbers, strings, lists and dicts with string keys. A dict is the list of its entries in
  insertion order. A float is kept by its text, since no claim computes with one.
\<close>

datatype json =
    JNull
  | JBool bool
  | JInt int
  | JFloat string
  | JStr string
  | JArr "json list"
  | JObj "(string \<times> json) list"

text \<open>
  The exceptions the code meets, all of them subclasses of \<^verbatim>\<open>Exception\<close>; \<open>OSError\<close> stands
  for its subclasses other than \<open>FileNotFoundError\<close> (a permission error, a directory in
  the way).
\<close>

datatype exn =
    AttributeError
  | TypeError
  | ValueError
  | NameError
  | JSONDecodeError
  | KeyError
  | FileNotFoundError
  | OSError

text \<open>
  A script run of the UI framework reaches the end of a handler, or is cut short by
  \<^verbatim>\<open>st.rerun()\<close>, which abandons the run and starts the script again (the exception behind
  it is not an \<^verbatim>\<open>Exception\<close>, so no handler of the code catches it), or ends with an
  exception that nothing catches.
\<close>

datatype 'a run = Done 'a | Rerun | Failed exn

text \<open>\<^verbatim>\<open>d.get(key, default)\<close> and \<^verbatim>\<open>d.update(other)\<close> on a dict.\<close>

definition dict_get :: "(string \<times> json) list \<Rightarrow> string \<Rightarrow> json \<Rightarrow> json" where
  "dict_get d key dflt = (case map_of d key of None \<Rightarrow> dflt | Some v \<Rightarrow> v)"


section \<open>Usage statistics (emotional\_analysis.py)\<close>

text \<open>
  The usage statistics are the object \<^verbatim>\<open>st.session_state.emotional_usage_stats\<close>: a dict
  from category name to a \<^verbatim>\<open>defaultdict(int)\<close> from tag value to count. A dict is a map;
  the \<^verbatim>\<open>defaultdict\<close> default \<open>0\<close> is written out where the source reads a missing key.
\<close>

type_synonym counter = "string \<rightharpoonup> int"

type_synonym usage_stats = "string \<rightharpoonup> counter"

text \<open>
  The expression
  \<^verbatim>\<open>st.session_state.emotional_usage_stats.get(category, {}).get(item, 0)\<close>
  of lines 53 and 165.
\<close>

definition usage_count :: "usage_stats \<Rightarrow> string \<Rightarrow> string \<Rightarrow> int" where
  "usage_count stats category item =
     (case stats category of
        None \<Rightarrow> 0
      | Some c \<Rightarrow> (case c item of None \<Rightarrow> 0 | Some n \<Rightarrow> n))"

text \<open>\<^verbatim>\<open>get_bubble_size\<close>, lines 51--62: the CSS class of a bubble.\<close>

definition get_bubble_size :: "usage_stats \<Rightarrow> string \<Rightarrow> string \<Rightarrow> string" where
  "get_bubble_size stats category item =
     (let count = usage_count stats category item
      in if count = 0 then ''bubble-small''
         else if count \<le> 2 then ''bubble-medium''
         else if count \<le> 5 then ''bubble-large''
         else ''bubble-xlarge'')"

text \<open>
  \<^verbatim>\<open>update_usage_stats\<close>, lines 45--49, on the statistics dict. \<^verbatim>\<open>stats[category][item] += 1\<close>
  on a \<^verbatim>\<open>defaultdict(int)\<close> reads a missing item as \<open>0\<close>. A category that is not a key is
  skipped (line 47).
\<close>

definition increment :: "string \<Rightarrow> counter \<Rightarrow> counter" where
  "increment item c = c(item \<mapsto> (case c item of None \<Rightarrow> 0 | Some n \<Rightarrow> n) + 1)"

definition update_usage_stats :: "string \<Rightarrow> string list \<Rightarrow> usage_stats \<Rightarrow> usage_stats" where
  "update_usage_stats category selected_items stats =
     (case stats category of
        None \<Rightarrow> stats
      | Some c \<Rightarrow> stats(category \<mapsto> fold increment selected_items c))"

section \<open>Session state and the selection form (emotional\_analysis.py)\<close>

text \<open>
  The part of \<^verbatim>\<open>st.session_state\<close> the two modules use. A key that may be absent is an
  option or a map entry:
  \<^item> \<open>emotional_usage_stats\<close>: the statistics, \<open>None\<close> before \<^verbatim>\<open>initialize_usage_stats\<close>;
  \<^item> \<open>selected\<close>: the entries \<^verbatim>\<open>f"{key_prefix}_selected"\<close>, each a set of strings;
  \<^item> \<open>widget_text\<close>: the text widgets' values, by widget key;
  \<^item> \<open>trades\<close>, \<open>manual_trades\<close>, \<open>user_state\<close>, \<open>wallet_address\<close>, \<open>wallet_verified\<close>,
    \<open>show_manual_form\<close>: the entries of app.py of those names.
\<close>

record session_state =
  emotional_usage_stats :: "usage_stats option"
  selected :: "string \<rightharpoonup> string set"
  widget_text :: "string \<rightharpoonup> string"
  trades :: "json list"
  manual_trades :: "json list"
  user_state :: json
  wallet_address :: "string option"
  wallet_verified :: bool
  show_manual_form :: bool

text \<open>\<^verbatim>\<open>initialize_usage_stats\<close>, lines 35--43.\<close>

definition initialize_usage_stats :: "session_state \<Rightarrow> session_state" where
  "initialize_usage_stats st =
     (case emotional_usage_stats st of
        None \<Rightarrow> st\<lparr>emotional_usage_stats :=
                   Some [''emotional_states'' \<mapsto> Map.empty, ''triggers'' \<mapsto> Map.empty,
                         ''mistakes'' \<mapsto> Map.empty, ''actions'' \<mapsto> Map.empty]\<rparr>
      | Some _ \<Rightarrow> st)"

subsection \<open>String operations of Python\<close>

text \<open>
  Strings are lists of characters with codes 0 to 255. \<^verbatim>\<open>str.isspace\<close> on that range:
  tab to carriage return, the four separators 28 to 31, the space, and the two Latin-1
  spaces 133 and 160.
\<close>

definition py_isspace :: "char \<Rightarrow> bool" where
  "py_isspace c = (of_char c \<in> {9, 10, 11, 12, 13, 28, 29, 30, 31, 32, 133, 160 :: nat})"

definition strip :: "string \<Rightarrow> string" where
  "strip s = rev (dropWhile py_isspace (rev (dropWhile py_isspace s)))"

text \<open>
  \<^verbatim>\<open>s.split(sep)\<close>: the leftmost occurrences of \<open>sep\<close>, not overlapping; the empty string
  splits into one empty piece. (Python refuses an empty \<open>sep\<close>; the source's is \<^verbatim>\<open>', '\<close>.)
\<close>

function split_on :: "string \<Rightarrow> string \<Rightarrow> string list" where
  "split_on sep [] = [[]]"
| "split_on sep (c # cs) =
     (if sep \<noteq> [] \<and> prefix sep (c # cs)
      then [] # split_on sep (drop (length sep) (c # cs))
      else (case split_on sep cs of
              [] \<Rightarrow> [[c]]
            | w # ws \<Rightarrow> (c # w) # ws))"
  by pat_completeness auto
termination
  by (relation "measure (\<lambda>(sep, s). length s)") auto

text \<open>\<^verbatim>\<open>sep.join(xs)\<close>.\<close>

fun join :: "string \<Rightarrow> string list \<Rightarrow> string" where
  "join sep [] = []"
| "join sep [x] = x"
| "join sep (x # y # ys) = x @ sep @ join sep (y # ys)"

subsection \<open>The bubble selector\<close>

text \<open>
  The loop over the option buttons, lines 160--191. The grid of three columns is layout:
  the buttons are visited in the order of \<open>options\<close>. \<open>clicked\<close> is the key of the button
  pressed for this run, if any; \<^verbatim>\<open>st.button\<close> is true for that key only. The result is the
  toggled set when a button fired (the run then ends in \<^verbatim>\<open>st.rerun()\<close>), \<open>None\<close> when the
  loop ran through.
\<close>

fun option_buttons ::
  "string \<Rightarrow> string option \<Rightarrow> string list \<Rightarrow> string set \<Rightarrow> string set option" where
  "option_buttons key_prefix clicked [] selected_set = None"
| "option_buttons key_prefix clicked (option # rest) selected_set =
     (if clicked = Some (key_prefix @ ''_'' @ option)
      then Some (if option \<in> selected_set then selected_set - {option}
                 else insert option selected_set)
      else option_buttons key_prefix clicked rest selected_set)"

text \<open>
  \<^verbatim>\<open>create_interactive_bubble_selector\<close>, lines 135--222. \<open>set_order\<close> is the interpreter's
  iteration order of a set of strings, which \<^verbatim>\<open>list(selected_set)\<close> exposes: Python fixes
  only that every element comes once (\<open>valid_set_order\<close>). The title, the bubble size and
  the usage count only label the buttons.
\<close>

definition valid_set_order :: "(string set \<Rightarrow> string list) \<Rightarrow> bool" where
  "valid_set_order set_order =
     (\<forall>S. finite S \<longrightarrow> set (set_order S) = S \<and> distinct (set_order S))"

definition create_interactive_bubble_selector ::
  "(string set \<Rightarrow> string list) \<Rightarrow> string option \<Rightarrow> string \<Rightarrow> string list \<Rightarrow> string \<Rightarrow>
   string \<Rightarrow> string list \<Rightarrow> session_state \<Rightarrow> string list run \<times> session_state" where
  "create_interactive_bubble_selector set_order clicked title options category key_prefix
       current_selections st =
     (let session_key = key_prefix @ ''_selected'';
          selected_set = (case selected st session_key of
                            None \<Rightarrow> set current_selections
                          | Some S \<Rightarrow> S);
          st1 = st\<lparr>selected := (selected st)(session_key \<mapsto> selected_set)\<rparr>
      in case option_buttons key_prefix clicked options selected_set of
           Some toggled \<Rightarrow> (Rerun, st\<lparr>selected := (selected st)(session_key \<mapsto> toggled)\<rparr>)
         | None \<Rightarrow>
             if clicked = Some (''clear_'' @ key_prefix)
             then (Rerun, st\<lparr>selected := (selected st)(session_key \<mapsto> {})\<rparr>)
             else
               let custom_key = ''custom_'' @ key_prefix;
                   custom_input = (case widget_text st custom_key of
                                     None \<Rightarrow> [] | Some t \<Rightarrow> t)
               in if custom_input \<noteq> [] \<and> clicked = Some (''add_custom_'' @ key_prefix)
                  then (Rerun, st\<lparr>selected := (selected st)
                                      (session_key \<mapsto> insert custom_input selected_set),
                                   widget_text := (widget_text st)(custom_key \<mapsto> [])\<rparr>)
                  else (Done (set_order selected_set), st1))"

subsection \<open>The form\<close>

text \<open>
  Lines 236--245: the stored string of one tag field, split on \<^verbatim>\<open>', '\<close>, each piece
  stripped, empty pieces dropped. \<open>existing_data\<close> is the trade dict as far as the form
  reads it: its four tag fields, each a string when present.
\<close>

definition existing_selections :: "(string \<rightharpoonup> string) option \<Rightarrow> string \<Rightarrow> string list" where
  "existing_selections existing_data field =
     (let pieces = (case existing_data of
                      None \<Rightarrow> []
                    | Some d \<Rightarrow> (case d field of
                                  None \<Rightarrow> []
                                | Some s \<Rightarrow> if s = [] then [] else split_on '', '' s))
      in map strip (filter (\<lambda>x. strip x \<noteq> []) pieces))"

text \<open>\<^verbatim>\<open>f"emotions_{trade_id}" if trade_id else "emotions"\<close>.\<close>

definition prefix_for :: "string \<Rightarrow> string option \<Rightarrow> string" where
  "prefix_for base trade_id =
     (case trade_id of
        None \<Rightarrow> base
      | Some t \<Rightarrow> if t = [] then base else base @ ''_'' @ t)"

definition EMOTIONAL_STATES :: "string list" where
  "EMOTIONAL_STATES =
     [''Fear'', ''Greed'', ''FOMO (Fear of Missing Out)'', ''Panic'', ''Overconfidence'',
      ''Anxiety'', ''Euphoria'', ''Doubt'', ''Frustration'', ''Hope'']"

definition TRIGGERS :: "string list" where
  "TRIGGERS =
     [''Market volatility'', ''Price surges'', ''Price crashes'', ''Positive news/hype'',
      ''Negative news/FUD'', ''Social media buzz'', ''Seeing others' profits'',
      ''Recent losses'', ''Winning streaks'', ''Herd mentality'']"

definition PSYCHOLOGICAL_MISTAKES :: "string list" where
  "PSYCHOLOGICAL_MISTAKES =
     [''FOMO buying'', ''Panic selling'', ''Revenge trading'', ''Overconfidence bias'',
      ''Herd mentality'', ''Overtrading'', ''Ignoring risk management'', ''Chasing losses'',
      ''Not doing proper research'', ''Overleveraging'']"

definition CORRECTIVE_ACTIONS :: "string list" where
  "CORRECTIVE_ACTIONS =
     [''Develop a clear trading plan'', ''Implement risk management strategies'',
      ''Conduct thorough research'', ''Keep a trading journal'', ''Stick to your strategy'',
      ''Diversify your portfolio'', ''Set realistic goals'', ''Use position sizing'',
      ''Take regular breaks'', ''Continuously educate yourself'']"

text \<open>
  Lines 280--288: the statistics are updated for every category whose selector returned
  a non-empty list. Every caller has run \<^verbatim>\<open>initialize_usage_stats\<close> (line 227), so the
  attribute is set.
\<close>

definition record_selection ::
  "string \<Rightarrow> string list \<Rightarrow> session_state \<Rightarrow> session_state" where
  "record_selection category selected_items st =
     (if selected_items \<noteq> []
      then st\<lparr>emotional_usage_stats :=
                map_option (update_usage_stats category selected_items)
                  (emotional_usage_stats st)\<rparr>
      else st)"

text \<open>
  Lines 291--332 show the counters of the four categories, each read by its key: a
  category that is not a key of the statistics raises \<open>KeyError\<close>.
\<close>

definition show_patterns :: "session_state \<Rightarrow> exn option" where
  "show_patterns st =
     (case emotional_usage_stats st of
        None \<Rightarrow> Some AttributeError
      | Some stats \<Rightarrow>
          if stats ''emotional_states'' \<noteq> None \<and> stats ''triggers'' \<noteq> None \<and>
             stats ''mistakes'' \<noteq> None \<and> stats ''actions'' \<noteq> None
          then None else Some KeyError)"

text \<open>
  One step of a script run and then the rest: the rest runs on the value and the state
  of a step that came to its end; a step that ended in \<^verbatim>\<open>st.rerun()\<close> or in an exception
  ends the run there.
\<close>

definition then_run ::
  "'a run \<times> session_state \<Rightarrow> ('a \<Rightarrow> session_state \<Rightarrow> 'b run \<times> session_state) \<Rightarrow>
   'b run \<times> session_state" where
  "then_run step rest =
     (case step of
        (Done x, st) \<Rightarrow> rest x st
      | (Rerun, st) \<Rightarrow> (Rerun, st)
      | (Failed e, st) \<Rightarrow> (Failed e, st))"

text \<open>
  \<^verbatim>\<open>create_emotional_analysis_form\<close>, lines 224--339. A selector that ends in
  \<^verbatim>\<open>st.rerun()\<close> ends the form with it. The result is the dict of the four joined
  strings, in the order of the source.
\<close>

definition create_emotional_analysis_form ::
  "(string set \<Rightarrow> string list) \<Rightarrow> string option \<Rightarrow> string option \<Rightarrow> (string \<rightharpoonup> string) option \<Rightarrow>
   session_state \<Rightarrow> (string \<times> string) list run \<times> session_state" where
  "create_emotional_analysis_form set_order clicked trade_id existing_data st =
     (let st0 = initialize_usage_stats st;
          existing_emotions = existing_selections existing_data ''emotional_state'';
          existing_triggers = existing_selections existing_data ''triggers'';
          existing_mistakes = existing_selections existing_data ''mistakes'';
          existing_actions = existing_selections existing_data ''corrective_action''
      in
        then_run (create_interactive_bubble_selector set_order clicked ''Emotional States''
                EMOTIONAL_STATES ''emotional_states'' (prefix_for ''emotions'' trade_id)
                existing_emotions st0) (\<lambda>selected_emotions st1.
        then_run (create_interactive_bubble_selector set_order clicked ''Triggers''
                TRIGGERS ''triggers'' (prefix_for ''triggers'' trade_id)
                existing_triggers st1) (\<lambda>selected_triggers st2.
        then_run (create_interactive_bubble_selector set_order clicked ''Psychological Mistakes''
                PSYCHOLOGICAL_MISTAKES ''mistakes'' (prefix_for ''mistakes'' trade_id)
                existing_mistakes st2) (\<lambda>selected_mistakes st3.
        then_run (create_interactive_bubble_selector set_order clicked ''Corrective Actions''
                CORRECTIVE_ACTIONS ''actions'' (prefix_for ''actions'' trade_id)
                existing_actions st3) (\<lambda>selected_actions st4.
          let st5 = record_selection ''actions'' selected_actions
                      (record_selection ''mistakes'' selected_mistakes
                        (record_selection ''triggers'' selected_triggers
                          (record_selection ''emotional_states'' selected_emotions st4)))
          in case show_patterns st5 of
               Some e \<Rightarrow> (Failed e, st5)
             | None \<Rightarrow>
                 (Done [(''emotional_state'', join '', '' selected_emotions),
                        (''triggers'', join '', '' selected_triggers),
                        (''mistakes'', join '', '' selected_mistakes),
                        (''corrective_action'', join '', '' selected_actions)],
                  st5))))))"

subsection \<open>Loading the statistics file\<close>

text \<open>
  What \<^verbatim>\<open>emotional_stats.json\<close> can be when \<^verbatim>\<open>load_emotional_stats\<close> opens it: absent;
  there but not readable; text that \<^verbatim>\<open>json.load\<close> rejects; a JSON document that is not an
  object; or an object of objects of integers, the format \<^verbatim>\<open>save_emotional_stats\<close> writes.
  \<open>Stats\<close> holds the members in file order; where a key is repeated \<^verbatim>\<open>json.load\<close> keeps the
  last value. (An object whose values are not objects of integers is outside this type.)
\<close>

datatype stats_file =
    NoFile
  | Unreadable
  | Malformed
  | NotAnObject
  | Stats "(string \<times> (string \<times> int) list) list"

text \<open>
  Line 366, \<^verbatim>\<open>stats[category] = defaultdict(int, category_stats)\<close>: the category's counter
  becomes the file's.
\<close>

definition assign_category :: "string \<times> (string \<times> int) list \<Rightarrow> usage_stats \<Rightarrow> usage_stats" where
  "assign_category entry stats = stats(fst entry \<mapsto> map_of (rev (snd entry)))"

text \<open>
  \<^verbatim>\<open>load_emotional_stats\<close>, lines 356--370. Every exception inside the \<^verbatim>\<open>try\<close> ends in
  \<^verbatim>\<open>return False\<close>: the failed \<^verbatim>\<open>open\<close>, the \<open>JSONDecodeError\<close>, the \<open>AttributeError\<close> of
  \<^verbatim>\<open>.items()\<close> on a document that is no dict, and that of the first assignment when the
  statistics were never initialised.
\<close>

definition load_emotional_stats :: "stats_file \<Rightarrow> session_state \<Rightarrow> bool \<times> session_state" where
  "load_emotional_stats file st =
     (case file of
        NoFile \<Rightarrow> (True, st)
      | Unreadable \<Rightarrow> (False, st)
      | Malformed \<Rightarrow> (False, st)
      | NotAnObject \<Rightarrow> (False, st)
      | Stats members \<Rightarrow>
          (case emotional_usage_stats st of
             None \<Rightarrow> (members = [], st)
           | Some stats \<Rightarrow>
               (True, st\<lparr>emotional_usage_stats := Some (fold assign_category members stats)\<rparr>)))"

section \<open>The journal file (journal.py)\<close>

text \<open>
  The file system: the text of every file that exists, the paths that cannot be opened
  for reading and those that cannot be opened for writing.
\<close>

record filesystem =
  files :: "string \<rightharpoonup> string"
  unreadable :: "string set"
  unwritable :: "string set"

text \<open>
  The json library is a parameter. \<open>json_load\<close> parses a text or raises, \<open>JSONDecodeError\<close>
  for text that is not JSON. \<open>json_dump indent sort_keys data\<close> is the text that
  \<^verbatim>\<open>json.dump(data, f, indent=..., sort_keys=...)\<close> writes, or the exception it raises and
  the text it had written by then.
\<close>

datatype dump_result = Dumped string | DumpFailed exn string

record json_library =
  json_load :: "string \<Rightarrow> exn + json"
  json_dump :: "nat \<Rightarrow> bool \<Rightarrow> json \<Rightarrow> dump_result"

text \<open>\<^verbatim>\<open>shutil.copy2(src, dst)\<close>.\<close>

definition copy2 :: "filesystem \<Rightarrow> string \<Rightarrow> string \<Rightarrow> exn + filesystem" where
  "copy2 fs src dst =
     (case files fs src of
        None \<Rightarrow> Inl FileNotFoundError
      | Some text \<Rightarrow>
          if src \<in> unreadable fs \<or> dst \<in> unwritable fs then Inl OSError
          else Inr (fs\<lparr>files := (files fs)(dst \<mapsto> text)\<rparr>))"

text \<open>Lines 76--82: the backup, whose failure is caught and only printed.\<close>

definition create_backup :: "filesystem \<Rightarrow> string \<Rightarrow> filesystem" where
  "create_backup fs filename =
     (if filename \<in> dom (files fs)
      then (let backup_filename = filename @ ''.backup''
            in case copy2 fs filename backup_filename of
                 Inl backup_error \<Rightarrow> fs
               | Inr fs' \<Rightarrow> fs')
      else fs)"

text \<open>
  Lines 85--86: \<^verbatim>\<open>open(filename, 'w')\<close> empties the file, \<^verbatim>\<open>json.dump\<close> writes into it.
\<close>

definition write_json ::
  "json_library \<Rightarrow> filesystem \<Rightarrow> string \<Rightarrow> json \<Rightarrow> (exn + unit) \<times> filesystem" where
  "write_json lib fs filename data =
     (if filename \<in> unwritable fs then (Inl OSError, fs)
      else case json_dump lib 4 True data of
             Dumped text \<Rightarrow> (Inr (), fs\<lparr>files := (files fs)(filename \<mapsto> text)\<rparr>)
           | DumpFailed e partial \<Rightarrow> (Inl e, fs\<lparr>files := (files fs)(filename \<mapsto> partial)\<rparr>))"

text \<open>
  \<^verbatim>\<open>save_journal_data\<close>, lines 69--92. The result is what the caller gets: \<open>Inr\<close> a returned
  boolean, \<open>Inl\<close> an exception that leaves the function. \<^verbatim>\<open>except Exception\<close> catches every
  exception of the body.
\<close>

definition save_journal_data ::
  "json_library \<Rightarrow> filesystem \<Rightarrow> string \<Rightarrow> json \<Rightarrow> (exn + bool) \<times> filesystem" where
  "save_journal_data lib fs filename data =
     (let fs1 = create_backup fs filename
      in case write_json lib fs1 filename data of
           (Inr _, fs2) \<Rightarrow> (Inr True, fs2)
         | (Inl e, fs2) \<Rightarrow> (Inr False, fs2))"

text \<open>Lines 107--110: the three keys a loaded journal must have.\<close>

definition ensure_key :: "string \<Rightarrow> (string \<times> json) list \<Rightarrow> (string \<times> json) list" where
  "ensure_key key data =
     (if map_of data key = None
      then data @ [(key, if key \<noteq> ''reflections'' then JArr [] else JObj [])]
      else data)"

definition required_keys :: "string list" where
  "required_keys = [''trades'', ''manual_trades'', ''reflections'']"

text \<open>
  Reading a file as lines 99--100 and 122--123 do: \<^verbatim>\<open>open(name, 'r')\<close>, then
  \<^verbatim>\<open>json.load\<close>.
\<close>

definition read_json :: "json_library \<Rightarrow> filesystem \<Rightarrow> string \<Rightarrow> exn + json" where
  "read_json lib fs name =
     (case files fs name of
        None \<Rightarrow> Inl FileNotFoundError
      | Some text \<Rightarrow> if name \<in> unreadable fs then Inl OSError else json_load lib text)"

text \<open>
  The names bound at the top level of journal.py: its five imports (lines 1--5) and its
  four functions. \<^verbatim>\<open>import os\<close> stands only inside \<^verbatim>\<open>save_journal_data\<close> (line 75), where
  it binds a local name of that function; the built-in names have no \<open>os\<close> either.
\<close>

definition journal_module_names :: "string list" where
  "journal_module_names =
     [''json'', ''Info'', ''constants'', ''hashlib'', ''time'', ''fetch_trade_data'',
      ''verify_wallet_ownership'', ''save_journal_data'', ''load_journal_data'']"

text \<open>
  \<^verbatim>\<open>load_journal_data\<close>, lines 94--130, with the module's global names as a parameter,
  since line 119 looks \<^verbatim>\<open>os\<close> up there when it runs: an unbound name raises \<open>NameError\<close>
  inside the handler, which no other handler of the same \<^verbatim>\<open>try\<close> catches. The result is
  \<open>Inr\<close> the returned value, \<open>JNull\<close> for \<^verbatim>\<open>None\<close>, or \<open>Inl\<close> the exception that leaves the
  function: the \<open>ValueError\<close> of line 104 and every exception of \<^verbatim>\<open>open\<close> and \<^verbatim>\<open>json.load\<close>
  other than the two that have handlers.
\<close>

definition load_backup :: "string list \<Rightarrow> json_library \<Rightarrow> filesystem \<Rightarrow> string \<Rightarrow> exn + json" where
  "load_backup globals lib fs filename =
     (let backup_filename = filename @ ''.backup''
      in if ''os'' \<notin> set globals then Inl NameError
         else if backup_filename \<in> dom (files fs)
         then (case read_json lib fs backup_filename of
                 Inr backup \<Rightarrow> Inr backup
               | Inl backup_error \<Rightarrow> Inr JNull)
         else Inr JNull)"

definition load_journal_data_in ::
  "string list \<Rightarrow> json_library \<Rightarrow> filesystem \<Rightarrow> string \<Rightarrow> exn + json" where
  "load_journal_data_in globals lib fs filename =
     (case read_json lib fs filename of
        Inr data \<Rightarrow>
          (case data of
             JObj d \<Rightarrow> Inr (JObj (fold ensure_key required_keys d))
           | _ \<Rightarrow> Inl ValueError)
      | Inl e \<Rightarrow>
          if e = JSONDecodeError then load_backup globals lib fs filename
          else if e = FileNotFoundError then Inr JNull
          else Inl e)"

definition load_journal_data :: "json_library \<Rightarrow> filesystem \<Rightarrow> string \<Rightarrow> exn + json" where
  "load_journal_data = load_journal_data_in journal_module_names"



section \<open>The handlers of app.py\<close>














section \<open>Notions the claims are stated with\<close>

text \<open>
  The session state app.py starts with (lines 27--45), before
  \<^verbatim>\<open>initialize_usage_stats\<close> has run.
\<close>

definition empty_session :: session_state where
  "empty_session =
     \<lparr>emotional_usage_stats = None, selected = Map.empty, widget_text = Map.empty,
      trades = [], manual_trades = [], user_state = JObj [], wallet_address = None,
      wallet_verified = False, show_manual_form = False\<rparr>"

text \<open>The count of a value as a session holds it.\<close>

definition session_count :: "session_state \<Rightarrow> string \<Rightarrow> string \<Rightarrow> int" where
  "session_count st category item =
     (case emotional_usage_stats st of
        None \<Rightarrow> 0
      | Some stats \<Rightarrow> usage_count stats category item)"

text \<open>
  The set a selector works on: the one stored under its session key, or the seed when
  the key is new.
\<close>

definition selection_of :: "session_state \<Rightarrow> string \<Rightarrow> string list \<Rightarrow> string set" where
  "selection_of st key_prefix current_selections =
     (case selected st (key_prefix @ ''_selected'') of
        None \<Rightarrow> set current_selections
      | Some S \<Rightarrow> S)"

text \<open>The selection the form shows for a category, for a trade and its stored data.\<close>

definition rendered_selection ::
  "session_state \<Rightarrow> string option \<Rightarrow> (string \<rightharpoonup> string) option \<Rightarrow> string \<Rightarrow> string set" where
  "rendered_selection st trade_id existing_data category =
     (if category = ''emotional_states''
      then selection_of st (prefix_for ''emotions'' trade_id)
             (existing_selections existing_data ''emotional_state'')
      else if category = ''triggers''
      then selection_of st (prefix_for ''triggers'' trade_id)
             (existing_selections existing_data ''triggers'')
      else if category = ''mistakes''
      then selection_of st (prefix_for ''mistakes'' trade_id)
             (existing_selections existing_data ''mistakes'')
      else if category = ''actions''
      then selection_of st (prefix_for ''actions'' trade_id)
             (existing_selections existing_data ''corrective_action'')
      else {})"

text \<open>
  A tag value that survives the stored form: not empty, without white space at either
  end, and without the separator \<^verbatim>\<open>', '\<close> inside.
\<close>

definition clean_tag :: "string \<Rightarrow> bool" where
  "clean_tag v = (v \<noteq> [] \<and> strip v = v \<and> \<not> sublist '', '' v)"

subsection \<open>Concrete inputs\<close>






definition example_json :: json_library where
  "example_json =
     \<lparr>json_load = (\<lambda>text. if text = ''{}'' then Inr (JObj [])
                            else if text = ''[]'' then Inr (JArr [])
                            else if text = ''null'' then Inr JNull
                            else Inl JSONDecodeError),
      json_dump = (\<lambda>indent sort_keys data.
                     case data of
                       JObj [] \<Rightarrow> Dumped ''{}''
                     | JArr [] \<Rightarrow> Dumped ''[]''
                     | JNull \<Rightarrow> Dumped ''null''
                     | _ \<Rightarrow> DumpFailed TypeError [])\<rparr>"

definition example_disk :: "(string \<rightharpoonup> string) \<Rightarrow> filesystem" where
  "example_disk fs = \<lparr>files = fs, unreadable = {}, unwritable = {}\<rparr>"

section \<open>Lemmas\<close>

subsection \<open>Counting\<close>




lemma record_selection_selected [simp]:
  "selected (record_selection cat xs st) = selected st"
  by (simp add: record_selection_def)

lemma valid_sorted_order: "valid_set_order sorted_list_of_set"
  by (simp add: valid_set_order_def)

subsection \<open>The selector\<close>

lemma selector_stats:
  "create_interactive_bubble_selector so clicked title opts cat kp cur st = (r, st') \<Longrightarrow>
   emotional_usage_stats st' = emotional_usage_stats st"
  by (auto simp: create_interactive_bubble_selector_def Let_def split: option.splits if_splits)

lemma selector_not_Failed:
  "create_interactive_bubble_selector so clicked title opts cat kp cur st \<noteq> (Failed e, st')"
  by (auto simp: create_interactive_bubble_selector_def Let_def split: option.splits if_splits)

lemma selector_Done:
  "create_interactive_bubble_selector so clicked title opts cat kp cur st = (Done xs, st') \<Longrightarrow>
   xs = so (selection_of st kp cur) \<and>
   st' = st\<lparr>selected := (selected st)(kp @ ''_selected'' \<mapsto> selection_of st kp cur)\<rparr>"
  by (auto simp: create_interactive_bubble_selector_def selection_of_def Let_def
      split: option.splits if_splits)

lemma prefix_for_neq:
  assumes "hd a \<noteq> hd b" "a \<noteq> []" "b \<noteq> []"
  shows "prefix_for a t @ s \<noteq> prefix_for b t @ s"
proof -
  have "hd (prefix_for a t @ s) = hd a" "hd (prefix_for b t @ s) = hd b"
    using assms by (auto simp: prefix_for_def split: option.splits)
  with assms show ?thesis by metis
qed

lemma initialize_selected [simp]:
  "selected (initialize_usage_stats st) = selected st"
  by (simp add: initialize_usage_stats_def split: option.splits)

lemma selection_of_initialize [simp]:
  "selection_of (initialize_usage_stats st) kp cur = selection_of st kp cur"
  by (simp add: selection_of_def)

lemma selection_of_finite:
  "\<forall>k S. selected st k = Some S \<longrightarrow> finite S \<Longrightarrow> finite (selection_of st kp cur)"
  by (auto simp: selection_of_def split: option.splits)

subsection \<open>Loading the statistics\<close>

lemma fold_assign_category:
  "fold assign_category members stats c =
     (case map_of (rev members) c of
        None \<Rightarrow> stats c
      | Some cs \<Rightarrow> Some (map_of (rev cs)))"
proof (induction members arbitrary: stats)
  case Nil
  then show ?case by simp
next
  case (Cons m ms)
  have "fold assign_category (m # ms) stats c = fold assign_category ms (assign_category m stats) c"
    by simp
  also have "\<dots> = (case map_of (rev ms) c of
                      None \<Rightarrow> assign_category m stats c
                    | Some cs \<Rightarrow> Some (map_of (rev cs)))"
    by (rule Cons)
  also have "\<dots> = (case map_of (rev (m # ms)) c of
                      None \<Rightarrow> stats c
                    | Some cs \<Rightarrow> Some (map_of (rev cs)))"
    by (cases m) (auto simp: map_add_def assign_category_def split: option.splits)
  finally show ?case .
qed

subsection \<open>Trades\<close>





subsection \<open>The journal file\<close>

lemma backup_name_neq [simp]: "filename @ ''.backup'' \<noteq> filename" "filename \<noteq> filename @ ''.backup''"
  by simp_all

lemma map_of_ensure_key:
  "map_of (ensure_key key d) k =
     (if k = key \<and> map_of d key = None
      then Some (if key \<noteq> ''reflections'' then JArr [] else JObj [])
      else map_of d k)"
  by (auto simp: ensure_key_def map_add_def split: option.splits)

lemma ensure_keys_map_of:
  "map_of (fold ensure_key required_keys d0) k =
     (if k \<in> set required_keys
      then Some (dict_get d0 k (if k \<noteq> ''reflections'' then JArr [] else JObj []))
      else map_of d0 k)"
proof -
  have neq: "''trades'' \<noteq> ''manual_trades''" "''trades'' \<noteq> ''reflections''"
    "''manual_trades'' \<noteq> ''reflections''" "''manual_trades'' \<noteq> ''trades''"
    "''reflections'' \<noteq> ''trades''" "''reflections'' \<noteq> ''manual_trades''"
    by simp_all
  have f: "fold ensure_key required_keys d0 =
      ensure_key ''reflections'' (ensure_key ''manual_trades'' (ensure_key ''trades'' d0))"
    by (simp add: required_keys_def)
  show ?thesis
    unfolding f map_of_ensure_key
    by (cases "k = ''trades''"; cases "k = ''manual_trades''"; cases "k = ''reflections''")
       (simp_all only: neq required_keys_def dict_get_def list.set insert_iff empty_iff
          simp_thms if_True if_False option.case split: option.splits, auto)
qed

lemma load_journal_data_success:
  assumes "load_journal_data lib fs filename = Inr doc" "doc \<noteq> JNull"
  shows "\<exists>d0. read_json lib fs filename = Inr (JObj d0) \<and>
           doc = JObj (fold ensure_key required_keys d0)"
  using assms
  by (auto simp: load_journal_data_def load_journal_data_in_def load_backup_def
      journal_module_names_def split: sum.splits json.splits if_splits)

lemma load_journal_data_malformed:
  "read_json lib fs filename = Inl JSONDecodeError \<Longrightarrow>
   load_journal_data lib fs filename = Inl NameError"
  by (simp add: load_journal_data_def load_journal_data_in_def load_backup_def
      journal_module_names_def)

lemma load_journal_data_in_backup:
  assumes "''os'' \<in> set globals"
    and "read_json lib fs filename = Inl JSONDecodeError"
    and "read_json lib fs (filename @ ''.backup'') = Inr backup"
  shows "load_journal_data_in globals lib fs filename = Inr backup"
  using assms
  by (auto simp: load_journal_data_in_def load_backup_def read_json_def Let_def
      split: option.splits)

subsection \<open>Splitting what was joined\<close>

lemma split_on_append_sep:
  "\<not> sublist '', '' x \<Longrightarrow> split_on '', '' (x @ '', '' @ rest) = x # split_on '', '' rest"
proof (induction x)
  case Nil
  then show ?case by simp
next
  case (Cons c x)
  have nx: "\<not> sublist '', '' x"
    using Cons.prems by (metis sublist_Cons_right)
  have np: "\<not> prefix '', '' (c # x @ '', '' @ rest)"
  proof
    assume p: "prefix '', '' (c # x @ '', '' @ rest)"
    then have c: "c = CHR '',''" and h: "prefix '' '' (x @ '', '' @ rest)" by auto
    show False
    proof (cases x)
      case Nil
      with h show False by simp
    next
      case (Cons y ys)
      with h have "y = CHR '' ''" by simp
      with c Cons have "prefix '', '' (c # x)" by simp
      then have "sublist '', '' (c # x)" by (rule prefix_imp_sublist)
      with Cons.prems show False by simp
    qed
  qed
  show ?case
    using np Cons.IH [OF nx] by simp
qed

lemma split_on_no_sep:
  "\<not> sublist '', '' x \<Longrightarrow> split_on '', '' x = [x]"
proof (induction x)
  case Nil
  then show ?case by simp
next
  case (Cons c x)
  have nx: "\<not> sublist '', '' x"
    using Cons.prems by (metis sublist_Cons_right)
  have np: "\<not> prefix '', '' (c # x)"
    using Cons.prems prefix_imp_sublist by blast
  show ?case using np Cons.IH [OF nx] by simp
qed

lemma split_on_join:
  "xs \<noteq> [] \<Longrightarrow> \<forall>x \<in> set xs. \<not> sublist '', '' x \<Longrightarrow> split_on '', '' (join '', '' xs) = xs"
proof (induction "'', ''" xs rule: join.induct)
  case 1
  then show ?case by simp
next
  case (2 x)
  then show ?case by (simp add: split_on_no_sep)
next
  case (3 x y ys)
  then show ?case
    using split_on_append_sep [of x "join '', '' (y # ys)"] by simp
qed

lemma join_nonempty:
  "xs \<noteq> [] \<Longrightarrow> \<forall>x \<in> set xs. x \<noteq> [] \<Longrightarrow> join sep xs \<noteq> []"
  by (induction sep xs rule: join.induct) auto

lemma existing_selections_join:
  assumes "\<forall>x \<in> set xs. clean_tag x" and "m field = Some (join '', '' xs)"
  shows "existing_selections (Some m) field = xs"
proof (cases "xs = []")
  case True
  then show ?thesis using assms(2) by (simp add: existing_selections_def)
next
  case False
  have ne: "join '', '' xs \<noteq> []"
    using False assms by (intro join_nonempty) (auto simp: clean_tag_def)
  have sp: "split_on '', '' (join '', '' xs) = xs"
    using False assms by (intro split_on_join) (auto simp: clean_tag_def)
  have keep: "filter (\<lambda>x. strip x \<noteq> []) xs = xs"
    using assms by (auto simp: clean_tag_def intro!: filter_True)
  have st: "map strip xs = xs"
    using assms by (auto simp: clean_tag_def intro!: map_idI)
  show ?thesis
    using ne sp keep st assms(2) by (simp add: existing_selections_def)
qed


lemma rendered_selection_finite:
  "\<forall>k S. selected st k = Some S \<longrightarrow> finite S \<Longrightarrow> finite (rendered_selection st t e c)"
  by (simp add: rendered_selection_def selection_of_finite)

lemma rendered_selection_fresh:
  assumes "\<forall>base \<in> {''emotions'', ''triggers'', ''mistakes'', ''actions''}.
             selected st (prefix_for base trade_id @ ''_selected'') = None"
  shows "rendered_selection st trade_id (Some m) c =
     (if c = ''emotional_states'' then set (existing_selections (Some m) ''emotional_state'')
      else if c = ''triggers'' then set (existing_selections (Some m) ''triggers'')
      else if c = ''mistakes'' then set (existing_selections (Some m) ''mistakes'')
      else if c = ''actions'' then set (existing_selections (Some m) ''corrective_action'')
      else {})"
  using assms by (simp add: rendered_selection_def selection_of_def)

lemma valid_reverse_order: "valid_set_order (\<lambda>S. rev (sorted_list_of_set S))"
  by (simp add: valid_set_order_def)

subsection \<open>The form\<close>

lemma then_run_simps [simp]:
  "then_run (Done x, st) rest = rest x st"
  "then_run (Rerun, st) rest = (Rerun, st)"
  "then_run (Failed e, st) rest = (Failed e, st)"
  by (simp_all add: then_run_def)

lemma selector_cases:
  assumes "create_interactive_bubble_selector so clicked title opts cat kp cur st = (r, st')"
  obtains "r = Rerun" "emotional_usage_stats st' = emotional_usage_stats st"
  | "r = Done (so (selection_of st kp cur))"
    "st' = st\<lparr>selected := (selected st)(kp @ ''_selected'' \<mapsto> selection_of st kp cur)\<rparr>"
proof (cases r)
  case (Done xs)
  then show ?thesis using selector_Done assms that(2) by blast
next
  case Rerun
  then show ?thesis using selector_stats assms that(1) by blast
next
  case (Failed e)
  then show ?thesis using selector_not_Failed assms by blast
qed


text \<open>The form, run through: which selector ended it, or the four lists and the state.\<close>

lemma form_cases:
  assumes run: "create_emotional_analysis_form so clicked trade_id existing_data st = (r, st')"
  obtains
    (rerun) "r = Rerun"
      "emotional_usage_stats st' = emotional_usage_stats (initialize_usage_stats st)"
  | (through) st4 where
      "emotional_usage_stats st4 = emotional_usage_stats (initialize_usage_stats st)"
      "case show_patterns
              (record_selection ''actions'' (so (rendered_selection st trade_id existing_data ''actions''))
                (record_selection ''mistakes'' (so (rendered_selection st trade_id existing_data ''mistakes''))
                  (record_selection ''triggers'' (so (rendered_selection st trade_id existing_data ''triggers''))
                    (record_selection ''emotional_states''
                       (so (rendered_selection st trade_id existing_data ''emotional_states'')) st4)))) of
         Some e \<Rightarrow> r = Failed e
       | None \<Rightarrow> r = Done
          [(''emotional_state'',
               join '', '' (so (rendered_selection st trade_id existing_data ''emotional_states''))),
              (''triggers'',
               join '', '' (so (rendered_selection st trade_id existing_data ''triggers''))),
              (''mistakes'',
               join '', '' (so (rendered_selection st trade_id existing_data ''mistakes''))),
              (''corrective_action'',
               join '', '' (so (rendered_selection st trade_id existing_data ''actions'')))]"
      "st' = record_selection ''actions'' (so (rendered_selection st trade_id existing_data ''actions''))
                (record_selection ''mistakes'' (so (rendered_selection st trade_id existing_data ''mistakes''))
                  (record_selection ''triggers'' (so (rendered_selection st trade_id existing_data ''triggers''))
                    (record_selection ''emotional_states''
                       (so (rendered_selection st trade_id existing_data ''emotional_states'')) st4)))"
proof -
  let ?st0 = "initialize_usage_stats st"
  let ?ke = "prefix_for ''emotions'' trade_id" and ?kt = "prefix_for ''triggers'' trade_id"
  let ?km = "prefix_for ''mistakes'' trade_id" and ?ka = "prefix_for ''actions'' trade_id"
  let ?ce = "existing_selections existing_data ''emotional_state''"
  let ?ct = "existing_selections existing_data ''triggers''"
  let ?cm = "existing_selections existing_data ''mistakes''"
  let ?ca = "existing_selections existing_data ''corrective_action''"
  have neq: "?ke @ ''_selected'' \<noteq> ?kt @ ''_selected''" "?ke @ ''_selected'' \<noteq> ?km @ ''_selected''"
    "?ke @ ''_selected'' \<noteq> ?ka @ ''_selected''" "?kt @ ''_selected'' \<noteq> ?km @ ''_selected''"
    "?kt @ ''_selected'' \<noteq> ?ka @ ''_selected''" "?km @ ''_selected'' \<noteq> ?ka @ ''_selected''"
    by (rule prefix_for_neq; simp)+
  have S: "rendered_selection st trade_id existing_data ''emotional_states'' = selection_of st ?ke ?ce"
    "rendered_selection st trade_id existing_data ''triggers'' = selection_of st ?kt ?ct"
    "rendered_selection st trade_id existing_data ''mistakes'' = selection_of st ?km ?cm"
    "rendered_selection st trade_id existing_data ''actions'' = selection_of st ?ka ?ca"
    by (simp_all add: rendered_selection_def)
  note run' = run [unfolded create_emotional_analysis_form_def Let_def]
  obtain r1 st1 where s1: "create_interactive_bubble_selector so clicked ''Emotional States''
      EMOTIONAL_STATES ''emotional_states'' ?ke ?ce ?st0 = (r1, st1)" by fastforce
  from s1 show ?thesis
  proof (cases rule: selector_cases)
    case 1
    then show ?thesis using run' s1 rerun by simp
  next
    case 2
    note a1 = 2
    obtain r2 st2 where s2: "create_interactive_bubble_selector so clicked ''Triggers''
      TRIGGERS ''triggers'' ?kt ?ct st1 = (r2, st2)" by fastforce
    have sel2: "selection_of st1 ?kt ?ct = selection_of st ?kt ?ct"
      using neq unfolding a1(2) by (simp add: selection_of_def)
    have e1: "emotional_usage_stats st1 = emotional_usage_stats ?st0"
      unfolding a1(2) by simp
    from s2 show ?thesis
    proof (cases rule: selector_cases)
      case 1
      then show ?thesis using run' s1 s2 a1(1) e1 rerun by simp
    next
      case 2
      note a2 = 2 [unfolded sel2]
      obtain r3 st3 where s3: "create_interactive_bubble_selector so clicked
        ''Psychological Mistakes'' PSYCHOLOGICAL_MISTAKES ''mistakes'' ?km ?cm st2 = (r3, st3)"
        by fastforce
      have sel3: "selection_of st2 ?km ?cm = selection_of st ?km ?cm"
        using neq unfolding a2(2) a1(2) by (simp add: selection_of_def)
      have e2: "emotional_usage_stats st2 = emotional_usage_stats ?st0"
        unfolding a2(2) using e1 by simp
      from s3 show ?thesis
      proof (cases rule: selector_cases)
        case 1
        then show ?thesis using run' s1 s2 s3 a1(1) a2(1) e2 rerun by simp
      next
        case 2
        note a3 = 2 [unfolded sel3]
        obtain r4 st4 where s4: "create_interactive_bubble_selector so clicked
          ''Corrective Actions'' CORRECTIVE_ACTIONS ''actions'' ?ka ?ca st3 = (r4, st4)"
          by fastforce
        have sel4: "selection_of st3 ?ka ?ca = selection_of st ?ka ?ca"
          using neq unfolding a3(2) a2(2) a1(2) by (simp add: selection_of_def)
        have e3: "emotional_usage_stats st3 = emotional_usage_stats ?st0"
          unfolding a3(2) using e2 by simp
        from s4 show ?thesis
        proof (cases rule: selector_cases)
          case 1
          then show ?thesis using run' s1 s2 s3 s4 a1(1) a2(1) a3(1) e3 rerun by simp
        next
          case 2
          note a4 = 2 [unfolded sel4]
          have e4: "emotional_usage_stats st4 = emotional_usage_stats ?st0"
            unfolding a4(2) using e3 by simp
          let ?st5 = "record_selection ''actions'' (so (selection_of st ?ka ?ca))
                (record_selection ''mistakes'' (so (selection_of st ?km ?cm))
                  (record_selection ''triggers'' (so (selection_of st ?kt ?ct))
                    (record_selection ''emotional_states'' (so (selection_of st ?ke ?ce)) st4)))"
          have fin: "(case show_patterns ?st5 of
                 Some e \<Rightarrow> (Failed e, ?st5)
               | None \<Rightarrow>
                 (Done [(''emotional_state'', join '', '' (so (selection_of st ?ke ?ce))),
                        (''triggers'', join '', '' (so (selection_of st ?kt ?ct))),
                        (''mistakes'', join '', '' (so (selection_of st ?km ?cm))),
                        (''corrective_action'', join '', '' (so (selection_of st ?ka ?ca)))],
                  ?st5)) = (r, st')"
            using run' unfolding s1 a1(1) then_run_simps s2 a2(1) s3 a3(1) s4 a4(1) selection_of_initialize .
          have st': "st' = ?st5"
            using fin by (simp split: option.splits)
          have res: "case show_patterns ?st5 of
           Some e \<Rightarrow> r = Failed e
          | None \<Rightarrow> r = Done
             [(''emotional_state'', join '', '' (so (selection_of st ?ke ?ce))),
              (''triggers'', join '', '' (so (selection_of st ?kt ?ct))),
              (''mistakes'', join '', '' (so (selection_of st ?km ?cm))),
              (''corrective_action'', join '', '' (so (selection_of st ?ka ?ca)))]"
            using fin by (simp split: option.splits)
          show ?thesis
            using through [of st4] e4 res st' unfolding S by blast
        qed
      qed
    qed
  qed
qed


lemma form_Done_result:
  assumes run: "create_emotional_analysis_form so clicked trade_id existing_data st = (Done d, st')"
  shows "d = [(''emotional_state'',
               join '', '' (so (rendered_selection st trade_id existing_data ''emotional_states''))),
              (''triggers'',
               join '', '' (so (rendered_selection st trade_id existing_data ''triggers''))),
              (''mistakes'',
               join '', '' (so (rendered_selection st trade_id existing_data ''mistakes''))),
              (''corrective_action'',
               join '', '' (so (rendered_selection st trade_id existing_data ''actions'')))]"
  using run
proof (cases rule: form_cases)
  case rerun
  then show ?thesis by simp
next
  case (through st4)
  from through(2) show ?thesis by (simp split: option.splits)
qed

section \<open>Claims\<close>




text \<open>
  C2, as the code has it. A missing file is a success without any change; a file that
  cannot be read, that is not JSON, or that is no JSON object is a reported failure
  (\<open>False\<close>) without any change. A file that loads does not merge into the counters of a
  category: for every category the file lists, the counter in memory is replaced by the
  file's (a value the file does not list counts 0 afterwards); a category the file does
  not list keeps its counter.
\<close>

theorem load_emotional_stats_replaces:
  "load_emotional_stats NoFile st = (True, st) \<and>
   load_emotional_stats Unreadable st = (False, st) \<and>
   load_emotional_stats Malformed st = (False, st) \<and>
   load_emotional_stats NotAnObject st = (False, st) \<and>
   (emotional_usage_stats st = Some stats \<longrightarrow>
      (\<exists>stats'. load_emotional_stats (Stats members) st =
                   (True, st\<lparr>emotional_usage_stats := Some stats'\<rparr>) \<and>
         (\<forall>c v. usage_count stats' c v =
            (case map_of (rev members) c of
               None \<Rightarrow> usage_count stats c v
             | Some cs \<Rightarrow> (case map_of (rev cs) v of None \<Rightarrow> 0 | Some n \<Rightarrow> n)))))"
proof -
  have "usage_count (fold assign_category members stats) c v =
          (case map_of (rev members) c of
             None \<Rightarrow> usage_count stats c v
           | Some cs \<Rightarrow> (case map_of (rev cs) v of None \<Rightarrow> 0 | Some n \<Rightarrow> n))" for c v
    by (simp add: usage_count_def fold_assign_category split: option.splits)
  then show ?thesis
    by (auto simp: load_emotional_stats_def
        intro!: exI[of _ "fold assign_category members stats"])
qed

text \<open>
  The theorem at a session with counts in two categories and a file that lists one of
  them: the load succeeds and the category the file does not list keeps its count.
\<close>

theorem load_emotional_stats_replaces_witness:
  "fst (load_emotional_stats (Stats [(''emotional_states'', [(''Fear'', 1)])])
      (empty_session\<lparr>emotional_usage_stats :=
         Some [''emotional_states'' \<mapsto> [''Fear'' \<mapsto> 3, ''Greed'' \<mapsto> 1],
               ''triggers'' \<mapsto> [''Recent losses'' \<mapsto> 2]]\<rparr>)) = True \<and>
   session_count (snd (load_emotional_stats (Stats [(''emotional_states'', [(''Fear'', 1)])])
      (empty_session\<lparr>emotional_usage_stats :=
         Some [''emotional_states'' \<mapsto> [''Fear'' \<mapsto> 3, ''Greed'' \<mapsto> 1],
               ''triggers'' \<mapsto> [''Recent losses'' \<mapsto> 2]]\<rparr>))) ''triggers'' ''Recent losses'' = 2"
proof -
  let ?stats = "[''emotional_states'' \<mapsto> [''Fear'' \<mapsto> 3, ''Greed'' \<mapsto> 1],
               ''triggers'' \<mapsto> [''Recent losses'' \<mapsto> (2::int)]]"
  let ?st = "empty_session\<lparr>emotional_usage_stats := Some ?stats\<rparr>"
  let ?m = "[(''emotional_states'', [(''Fear'', 1::int)])]"
  have s: "emotional_usage_stats ?st = Some ?stats" by simp
  from load_emotional_stats_replaces [of ?st ?stats ?m] s
  obtain stats' where l: "load_emotional_stats (Stats ?m) ?st =
        (True, ?st\<lparr>emotional_usage_stats := Some stats'\<rparr>)"
    and c: "usage_count stats' ''triggers'' ''Recent losses'' =
       (case map_of (rev ?m) ''triggers'' of
               None \<Rightarrow> usage_count ?stats ''triggers'' ''Recent losses''
             | Some cs \<Rightarrow> (case map_of (rev cs) ''Recent losses'' of None \<Rightarrow> 0 | Some n \<Rightarrow> n))"
    by blast
  have "usage_count stats' ''triggers'' ''Recent losses'' = 2"
    unfolding c by (simp add: usage_count_def)
  then show ?thesis
    unfolding l by (simp add: session_count_def)
qed

text \<open>
  C2 as the claim states it fails. The session counts \<open>Fear\<close> three times and \<open>Greed\<close>
  once; the file, with the four categories as \<^verbatim>\<open>save_emotional_stats\<close> writes them, lists
  \<open>Fear\<close> once. After the load \<open>Fear\<close> counts 1 and \<open>Greed\<close> 0: the counts in memory are
  gone, not merged with the file's.
\<close>

theorem load_replaces_counters_counterexample:
  "session_count (empty_session\<lparr>emotional_usage_stats :=
         Some [''emotional_states'' \<mapsto> [''Fear'' \<mapsto> 3, ''Greed'' \<mapsto> 1], ''triggers'' \<mapsto> Map.empty,
               ''mistakes'' \<mapsto> Map.empty, ''actions'' \<mapsto> Map.empty]\<rparr>)
      ''emotional_states'' ''Greed'' = 1 \<and>
   fst (load_emotional_stats
      (Stats [(''emotional_states'', [(''Fear'', 1)]), (''triggers'', []), (''mistakes'', []),
              (''actions'', [])])
      (empty_session\<lparr>emotional_usage_stats :=
         Some [''emotional_states'' \<mapsto> [''Fear'' \<mapsto> 3, ''Greed'' \<mapsto> 1], ''triggers'' \<mapsto> Map.empty,
               ''mistakes'' \<mapsto> Map.empty, ''actions'' \<mapsto> Map.empty]\<rparr>)) = True \<and>
   session_count (snd (load_emotional_stats
      (Stats [(''emotional_states'', [(''Fear'', 1)]), (''triggers'', []), (''mistakes'', []),
              (''actions'', [])])
      (empty_session\<lparr>emotional_usage_stats :=
         Some [''emotional_states'' \<mapsto> [''Fear'' \<mapsto> 3, ''Greed'' \<mapsto> 1], ''triggers'' \<mapsto> Map.empty,
               ''mistakes'' \<mapsto> Map.empty, ''actions'' \<mapsto> Map.empty]\<rparr>)))
      ''emotional_states'' ''Greed'' = 0 \<and>
   session_count (snd (load_emotional_stats
      (Stats [(''emotional_states'', [(''Fear'', 1)]), (''triggers'', []), (''mistakes'', []),
              (''actions'', [])])
      (empty_session\<lparr>emotional_usage_stats :=
         Some [''emotional_states'' \<mapsto> [''Fear'' \<mapsto> 3, ''Greed'' \<mapsto> 1], ''triggers'' \<mapsto> Map.empty,
               ''mistakes'' \<mapsto> Map.empty, ''actions'' \<mapsto> Map.empty]\<rparr>)))
      ''emotional_states'' ''Fear'' = 1"
  by (simp add: load_emotional_stats_def session_count_def usage_count_def assign_category_def
      empty_session_def)

text \<open>
  C3, as the code has it. The string the form returns for a category is the selected
  values joined with \<^verbatim>\<open>', '\<close> in the order in which the set iterates, each value once;
  only the "Selected:" line on the screen is sorted (line 197). When every selected value
  is clean (not empty, no white space at either end, no \<^verbatim>\<open>', '\<close> inside), a form rendered
  in a fresh context (no selection stored for that trade) from the returned strings
  shows, in every category, the same set of values.
\<close>

theorem serialize_seed_round_trip:
  assumes order: "valid_set_order set_order"
    and fin: "\<forall>k S. selected st k = Some S \<longrightarrow> finite S"
    and clean: "\<forall>c v. v \<in> rendered_selection st trade_id existing_data c \<longrightarrow> clean_tag v"
    and run: "create_emotional_analysis_form set_order clicked trade_id existing_data st = (Done d, st')"
    and fresh: "\<forall>base \<in> {''emotions'', ''triggers'', ''mistakes'', ''actions''}.
                  selected st2 (prefix_for base trade_id2 @ ''_selected'') = None"
  shows "(\<forall>c. rendered_selection st2 trade_id2 (Some (map_of d)) c =
              rendered_selection st trade_id existing_data c) \<and>
         (\<forall>c field. (c, field) \<in> {(''emotional_states'', ''emotional_state''), (''triggers'', ''triggers''),
                                  (''mistakes'', ''mistakes''), (''actions'', ''corrective_action'')} \<longrightarrow>
            (\<exists>xs. map_of d field = Some (join '', '' xs) \<and> distinct xs \<and>
                  set xs = rendered_selection st trade_id existing_data c))"
proof -
  let ?S = "rendered_selection st trade_id existing_data"
  note d = form_Done_result [OF run]
  have so: "set (set_order (?S c)) = ?S c" "distinct (set_order (?S c))" for c
    using order rendered_selection_finite [OF fin] by (simp_all add: valid_set_order_def)
  have cl: "\<forall>x \<in> set (set_order (?S c)). clean_tag x" for c
    using clean so by blast
  have m: "map_of d ''emotional_state'' = Some (join '', '' (set_order (?S ''emotional_states'')))"
    "map_of d ''triggers'' = Some (join '', '' (set_order (?S ''triggers'')))"
    "map_of d ''mistakes'' = Some (join '', '' (set_order (?S ''mistakes'')))"
    "map_of d ''corrective_action'' = Some (join '', '' (set_order (?S ''actions'')))"
    unfolding d by simp_all
  have e: "existing_selections (Some (map_of d)) ''emotional_state'' = set_order (?S ''emotional_states'')"
    "existing_selections (Some (map_of d)) ''triggers'' = set_order (?S ''triggers'')"
    "existing_selections (Some (map_of d)) ''mistakes'' = set_order (?S ''mistakes'')"
    "existing_selections (Some (map_of d)) ''corrective_action'' = set_order (?S ''actions'')"
    using existing_selections_join [OF cl] m by blast+
  have other: "c \<noteq> ''emotional_states'' \<Longrightarrow> c \<noteq> ''triggers'' \<Longrightarrow> c \<noteq> ''mistakes'' \<Longrightarrow>
      c \<noteq> ''actions'' \<Longrightarrow> ?S c = {}" for c
    by (simp add: rendered_selection_def)
  have a: "\<forall>c. rendered_selection st2 trade_id2 (Some (map_of d)) c = ?S c"
    unfolding rendered_selection_fresh [OF fresh] e so using other by simp
  have b: "\<forall>c field. (c, field) \<in> {(''emotional_states'', ''emotional_state''), (''triggers'', ''triggers''),
                                  (''mistakes'', ''mistakes''), (''actions'', ''corrective_action'')} \<longrightarrow>
            (\<exists>xs. map_of d field = Some (join '', '' xs) \<and> distinct xs \<and> set xs = ?S c)"
    using m so by auto
  from a b show ?thesis by blast
qed


text \<open>
  The theorem at a selection of \<open>Greed\<close> and \<open>Fear\<close> for trade \<open>t1\<close>, seeded again for
  trade \<open>t2\<close> in an empty session.
\<close>

theorem serialize_seed_round_trip_witness:
  "fst (create_emotional_analysis_form sorted_list_of_set None (Some ''t1'') None
     (empty_session\<lparr>selected := [''emotions_t1_selected'' \<mapsto> {''Greed'', ''Fear''}]\<rparr>)) =
     Done [(''emotional_state'', ''Fear, Greed''), (''triggers'', []), (''mistakes'', []),
           (''corrective_action'', [])] \<and>
   rendered_selection empty_session (Some ''t2'')
     (Some (map_of [(''emotional_state'', ''Fear, Greed''), (''triggers'', []), (''mistakes'', []),
           (''corrective_action'', [])])) ''emotional_states'' = {''Greed'', ''Fear''}"
proof -
  let ?st = "empty_session\<lparr>selected := [''emotions_t1_selected'' \<mapsto> {''Greed'', ''Fear''}]\<rparr>"
  let ?d = "[(''emotional_state'', ''Fear, Greed''), (''triggers'', []), (''mistakes'', []),
           (''corrective_action'', [])]"
  let ?run = "create_emotional_analysis_form sorted_list_of_set None (Some ''t1'') None ?st"
  have fin: "\<forall>k S. selected ?st k = Some S \<longrightarrow> finite S"
    by (simp add: empty_session_def)
  have r: "fst ?run = Done ?d"
    by code_simp
  then have run: "?run = (Done ?d, snd ?run)"
    by (metis prod.collapse)
  have sel: "rendered_selection ?st (Some ''t1'') None c =
      (if c = ''emotional_states'' then {''Greed'', ''Fear''} else {})" for c
    by (simp add: rendered_selection_def selection_of_def prefix_for_def empty_session_def
        existing_selections_def)
  have "clean_tag ''Greed''" "clean_tag ''Fear''"
    by code_simp+
  then have clean: "\<forall>c v. v \<in> rendered_selection ?st (Some ''t1'') None c \<longrightarrow> clean_tag v"
    unfolding sel by simp
  have fresh: "\<forall>base \<in> {''emotions'', ''triggers'', ''mistakes'', ''actions''}.
      selected empty_session (prefix_for base (Some ''t2'') @ ''_selected'') = None"
    by (simp add: empty_session_def)
  from serialize_seed_round_trip [OF valid_sorted_order fin clean run fresh]
  have "rendered_selection empty_session (Some ''t2'') (Some (map_of ?d)) ''emotional_states'' =
        rendered_selection ?st (Some ''t1'') None ''emotional_states''"
    by blast
  with r show ?thesis unfolding sel by simp
qed

text \<open>
  C3 as the claim states it fails twice. With a set that iterates in another order than
  the sorted one, here the reverse, the returned string is \<^verbatim>\<open>Greed, Fear\<close>, not the sorted
  \<^verbatim>\<open>Fear, Greed\<close>. And a custom value that holds the separator does not come back: the
  selection of the one value \<^verbatim>\<open>Panic, Fear\<close> is stored as that string and seeds the two
  values \<open>Panic\<close> and \<open>Fear\<close>.
\<close>

theorem serialization_order_counterexample:
  "valid_set_order (\<lambda>S. rev (sorted_list_of_set S)) \<and>
   fst (create_emotional_analysis_form (\<lambda>S. rev (sorted_list_of_set S)) None (Some ''t1'') None
     (empty_session\<lparr>selected := [''emotions_t1_selected'' \<mapsto> {''Greed'', ''Fear''}]\<rparr>)) =
     Done [(''emotional_state'', ''Greed, Fear''), (''triggers'', []), (''mistakes'', []),
           (''corrective_action'', [])] \<and>
   join '', '' (sort [''Greed'', ''Fear'']) = ''Fear, Greed'' \<and>
   fst (create_emotional_analysis_form sorted_list_of_set None (Some ''t1'') None
     (empty_session\<lparr>selected := [''emotions_t1_selected'' \<mapsto> {''Panic, Fear''}]\<rparr>)) =
     Done [(''emotional_state'', ''Panic, Fear''), (''triggers'', []), (''mistakes'', []),
           (''corrective_action'', [])] \<and>
   rendered_selection empty_session (Some ''t2'')
     (Some (map_of [(''emotional_state'', ''Panic, Fear''), (''triggers'', []), (''mistakes'', []),
           (''corrective_action'', [])])) ''emotional_states'' = {''Panic'', ''Fear''} \<and>
   {''Panic'', ''Fear''} \<noteq> {''Panic, Fear''}"
proof -
  have a: "fst (create_emotional_analysis_form (\<lambda>S. rev (sorted_list_of_set S)) None (Some ''t1'') None
     (empty_session\<lparr>selected := [''emotions_t1_selected'' \<mapsto> {''Greed'', ''Fear''}]\<rparr>)) =
     Done [(''emotional_state'', ''Greed, Fear''), (''triggers'', []), (''mistakes'', []),
           (''corrective_action'', [])]"
    by code_simp
  have b: "join '', '' (sort [''Greed'', ''Fear'']) = ''Fear, Greed''"
    by code_simp
  have c: "fst (create_emotional_analysis_form sorted_list_of_set None (Some ''t1'') None
     (empty_session\<lparr>selected := [''emotions_t1_selected'' \<mapsto> {''Panic, Fear''}]\<rparr>)) =
     Done [(''emotional_state'', ''Panic, Fear''), (''triggers'', []), (''mistakes'', []),
           (''corrective_action'', [])]"
    by code_simp
  have d: "rendered_selection empty_session (Some ''t2'')
     (Some (map_of [(''emotional_state'', ''Panic, Fear''), (''triggers'', []), (''mistakes'', []),
           (''corrective_action'', [])])) ''emotional_states'' = {''Panic'', ''Fear''}"
    by code_simp
  have e: "{''Panic'', ''Fear''} \<noteq> {''Panic, Fear''}"
    by auto
  from valid_reverse_order a b c d e show ?thesis by blast
qed



text \<open>
  C5. The claim is what lines 117--125 set out to do, and \<open>load_journal_data_in_backup\<close>
  shows that they do it once \<^verbatim>\<open>os\<close> is a name of the module. As journal.py stands it is
  not: with a primary file that is not JSON and a backup that parses, line 119 raises
  \<open>NameError\<close> and the backup is never read.
\<close>

theorem load_journal_data_backup_name_error:
  "read_json example_json
     (example_disk [''trade-log.json'' \<mapsto> ''{'', ''trade-log.json.backup'' \<mapsto> ''{}''])
     ''trade-log.json'' = Inl JSONDecodeError \<and>
   read_json example_json
     (example_disk [''trade-log.json'' \<mapsto> ''{'', ''trade-log.json.backup'' \<mapsto> ''{}''])
     ''trade-log.json.backup'' = Inr (JObj []) \<and>
   load_journal_data example_json
     (example_disk [''trade-log.json'' \<mapsto> ''{'', ''trade-log.json.backup'' \<mapsto> ''{}''])
     ''trade-log.json'' = Inl NameError"
  by (simp add: load_journal_data_def load_journal_data_in_def load_backup_def
      journal_module_names_def read_json_def example_json_def example_disk_def)

text \<open>
  C6. A primary file that parses to an object loads, and the result is that object with
  the missing ones of the three keys added. Every load that returns a document (not
  \<^verbatim>\<open>None\<close>) is such a load: the document has \<^verbatim>\<open>trades\<close>, \<^verbatim>\<open>manual_trades\<close> and
  \<^verbatim>\<open>reflections\<close>, each with the file's value when the file has the key, and the empty
  list, the empty list and the empty dict otherwise; every other key is as in the file.
  In particular a file without \<^verbatim>\<open>manual_trades\<close> loads with the empty list there.
  (As the module stands no load returns a document from the backup, see C5; line 123
  would return one as it is, without the three keys added.)
\<close>

theorem load_journal_data_backfills:
  "(read_json lib fs filename = Inr (JObj d0) \<longrightarrow>
      load_journal_data lib fs filename = Inr (JObj (fold ensure_key required_keys d0))) \<and>
   (load_journal_data lib fs filename = Inr doc \<and> doc \<noteq> JNull \<longrightarrow>
      (\<exists>d1 d. read_json lib fs filename = Inr (JObj d1) \<and> doc = JObj d \<and>
         map_of d ''trades'' = Some (dict_get d1 ''trades'' (JArr [])) \<and>
         map_of d ''manual_trades'' = Some (dict_get d1 ''manual_trades'' (JArr [])) \<and>
         map_of d ''reflections'' = Some (dict_get d1 ''reflections'' (JObj [])) \<and>
         (\<forall>k. k \<notin> set required_keys \<longrightarrow> map_of d k = map_of d1 k))) \<and>
   (read_json lib fs filename = Inr (JObj d0) \<and> map_of d0 ''manual_trades'' = None \<longrightarrow>
      (\<exists>d. load_journal_data lib fs filename = Inr (JObj d) \<and>
           map_of d ''manual_trades'' = Some (JArr [])))"
proof -
  have a: "read_json lib fs filename = Inr (JObj d0) \<longrightarrow>
      load_journal_data lib fs filename = Inr (JObj (fold ensure_key required_keys d0))"
    by (simp add: load_journal_data_def load_journal_data_in_def)
  have b: "load_journal_data lib fs filename = Inr doc \<and> doc \<noteq> JNull \<longrightarrow>
      (\<exists>d1 d. read_json lib fs filename = Inr (JObj d1) \<and> doc = JObj d \<and>
         map_of d ''trades'' = Some (dict_get d1 ''trades'' (JArr [])) \<and>
         map_of d ''manual_trades'' = Some (dict_get d1 ''manual_trades'' (JArr [])) \<and>
         map_of d ''reflections'' = Some (dict_get d1 ''reflections'' (JObj [])) \<and>
         (\<forall>k. k \<notin> set required_keys \<longrightarrow> map_of d k = map_of d1 k))"
  proof
    assume h: "load_journal_data lib fs filename = Inr doc \<and> doc \<noteq> JNull"
    then obtain d1 where d1: "read_json lib fs filename = Inr (JObj d1)"
      "doc = JObj (fold ensure_key required_keys d1)"
      using load_journal_data_success by blast
    have "map_of (fold ensure_key required_keys d1) ''trades'' = Some (dict_get d1 ''trades'' (JArr []))"
      "map_of (fold ensure_key required_keys d1) ''manual_trades'' =
         Some (dict_get d1 ''manual_trades'' (JArr []))"
      "map_of (fold ensure_key required_keys d1) ''reflections'' =
         Some (dict_get d1 ''reflections'' (JObj []))"
      "\<forall>k. k \<notin> set required_keys \<longrightarrow> map_of (fold ensure_key required_keys d1) k = map_of d1 k"
      unfolding ensure_keys_map_of by (simp_all add: required_keys_def)
    with d1 show "\<exists>d1 d. read_json lib fs filename = Inr (JObj d1) \<and> doc = JObj d \<and>
         map_of d ''trades'' = Some (dict_get d1 ''trades'' (JArr [])) \<and>
         map_of d ''manual_trades'' = Some (dict_get d1 ''manual_trades'' (JArr [])) \<and>
         map_of d ''reflections'' = Some (dict_get d1 ''reflections'' (JObj [])) \<and>
         (\<forall>k. k \<notin> set required_keys \<longrightarrow> map_of d k = map_of d1 k)"
      by blast
  qed
  have "map_of d0 ''manual_trades'' = None \<longrightarrow>
      map_of (fold ensure_key required_keys d0) ''manual_trades'' = Some (JArr [])"
    unfolding ensure_keys_map_of by (simp add: required_keys_def dict_get_def)
  with a have c: "read_json lib fs filename = Inr (JObj d0) \<and> map_of d0 ''manual_trades'' = None \<longrightarrow>
      (\<exists>d. load_journal_data lib fs filename = Inr (JObj d) \<and>
           map_of d ''manual_trades'' = Some (JArr []))"
    by blast
  from a b c show ?thesis by blast
qed

text \<open>
  The theorem at a journal file that holds the empty object: the three keys are added.
\<close>

theorem load_journal_data_backfills_witness:
  "load_journal_data example_json (example_disk [''trade-log.json'' \<mapsto> ''{}'']) ''trade-log.json'' =
     Inr (JObj [(''trades'', JArr []), (''manual_trades'', JArr []), (''reflections'', JObj [])])"
proof -
  let ?fs = "example_disk [''trade-log.json'' \<mapsto> ''{}'']"
  have r: "read_json example_json ?fs ''trade-log.json'' = Inr (JObj [])"
    by (simp add: read_json_def example_json_def example_disk_def)
  have f: "fold ensure_key required_keys [] =
      [(''trades'', JArr []), (''manual_trades'', JArr []), (''reflections'', JObj [])]"
    by (simp add: required_keys_def ensure_key_def)
  from load_journal_data_backfills [of example_json ?fs "''trade-log.json''" "[]" JNull] r
  show ?thesis unfolding f by blast
qed

text \<open>
  C7. \<^verbatim>\<open>save_journal_data\<close> never raises: it returns a boolean whatever the file system and
  the json library do. A file that exists at the path is copied to the path with
  \<^verbatim>\<open>.backup\<close> appended before the write, when the copy is possible; without a file
  at the path no backup is made. Whether or not the backup was made, a path that can be
  written and data that \<^verbatim>\<open>json.dump\<close> accepts give \<open>True\<close> and a file holding what
  \<^verbatim>\<open>json.dump(data, f, indent=4, sort_keys=True)\<close> writes. A path that cannot be written
  gives \<open>False\<close> and leaves the file as it was; a dump that raises gives \<open>False\<close>.
\<close>

theorem save_journal_data_backup_then_write:
  "(\<exists>b. fst (save_journal_data lib fs filename data) = Inr b) \<and>
   (files fs filename = Some old \<and> filename \<notin> unreadable fs \<and>
      filename @ ''.backup'' \<notin> unwritable fs \<longrightarrow>
        files (snd (save_journal_data lib fs filename data)) (filename @ ''.backup'') = Some old) \<and>
   (files fs filename = None \<longrightarrow>
        files (snd (save_journal_data lib fs filename data)) (filename @ ''.backup'') =
          files fs (filename @ ''.backup'')) \<and>
   (filename \<notin> unwritable fs \<and> json_dump lib 4 True data = Dumped text \<longrightarrow>
        fst (save_journal_data lib fs filename data) = Inr True \<and>
        files (snd (save_journal_data lib fs filename data)) filename = Some text) \<and>
   (filename \<in> unwritable fs \<longrightarrow>
        fst (save_journal_data lib fs filename data) = Inr False \<and>
        files (snd (save_journal_data lib fs filename data)) filename = files fs filename) \<and>
   (filename \<notin> unwritable fs \<and> json_dump lib 4 True data = DumpFailed e partial \<longrightarrow>
        fst (save_journal_data lib fs filename data) = Inr False)"
proof -
  have uw: "unwritable (create_backup fs filename) = unwritable fs"
    by (simp add: create_backup_def copy2_def Let_def split: option.splits)
  have prim: "files (create_backup fs filename) filename = files fs filename"
    by (simp add: create_backup_def copy2_def Let_def split: option.splits)
  have bak: "files fs filename = Some old \<Longrightarrow> filename \<notin> unreadable fs \<Longrightarrow>
      filename @ ''.backup'' \<notin> unwritable fs \<Longrightarrow>
      files (create_backup fs filename) (filename @ ''.backup'') = Some old"
    by (auto simp: create_backup_def copy2_def Let_def)
  have nobak: "files fs filename = None \<Longrightarrow> create_backup fs filename = fs"
    by (auto simp: create_backup_def)
  have other: "files (snd (write_json lib fs1 filename data)) (filename @ ''.backup'') =
      files fs1 (filename @ ''.backup'')" for fs1
    by (simp add: write_json_def split: dump_result.splits)
  have sw: "snd (save_journal_data lib fs filename data) =
      snd (write_json lib (create_backup fs filename) filename data)"
    by (simp add: save_journal_data_def Let_def split: prod.splits sum.splits)
  have c1: "\<exists>b. fst (save_journal_data lib fs filename data) = Inr b"
    by (auto simp: save_journal_data_def Let_def split: prod.splits sum.splits)
  have c2: "files fs filename = Some old \<and> filename \<notin> unreadable fs \<and>
      filename @ ''.backup'' \<notin> unwritable fs \<longrightarrow>
        files (snd (save_journal_data lib fs filename data)) (filename @ ''.backup'') = Some old"
    unfolding sw other using bak by simp
  have c3: "files fs filename = None \<longrightarrow>
        files (snd (save_journal_data lib fs filename data)) (filename @ ''.backup'') =
          files fs (filename @ ''.backup'')"
    unfolding sw other using nobak by simp
  have c4: "filename \<notin> unwritable fs \<and> json_dump lib 4 True data = Dumped text \<longrightarrow>
        fst (save_journal_data lib fs filename data) = Inr True \<and>
        files (snd (save_journal_data lib fs filename data)) filename = Some text"
    by (simp add: save_journal_data_def write_json_def uw Let_def)
  have c5: "filename \<in> unwritable fs \<longrightarrow>
        fst (save_journal_data lib fs filename data) = Inr False \<and>
        files (snd (save_journal_data lib fs filename data)) filename = files fs filename"
    by (simp add: save_journal_data_def write_json_def uw prim Let_def)
  have c6: "filename \<notin> unwritable fs \<and> json_dump lib 4 True data = DumpFailed e partial \<longrightarrow>
        fst (save_journal_data lib fs filename data) = Inr False"
    by (simp add: save_journal_data_def write_json_def uw Let_def)
  from c1 c2 c3 c4 c5 c6 show ?thesis by blast
qed


text \<open>
  The theorem at a disk that holds a journal: the save returns \<open>True\<close>, the file holds the
  new text and the backup the old one.
\<close>

theorem save_journal_data_backup_then_write_witness:
  "fst (save_journal_data example_json (example_disk [''trade-log.json'' \<mapsto> ''[]''])
          ''trade-log.json'' (JObj [])) = Inr True \<and>
   files (snd (save_journal_data example_json (example_disk [''trade-log.json'' \<mapsto> ''[]''])
          ''trade-log.json'' (JObj []))) ''trade-log.json'' = Some ''{}'' \<and>
   files (snd (save_journal_data example_json (example_disk [''trade-log.json'' \<mapsto> ''[]''])
          ''trade-log.json'' (JObj []))) (''trade-log.json'' @ ''.backup'') = Some ''[]''"
proof -
  let ?fs = "example_disk [''trade-log.json'' \<mapsto> ''[]'']"
  have h: "files ?fs ''trade-log.json'' = Some ''[]''" "''trade-log.json'' \<notin> unreadable ?fs"
    "''trade-log.json'' @ ''.backup'' \<notin> unwritable ?fs" "''trade-log.json'' \<notin> unwritable ?fs"
    "json_dump example_json 4 True (JObj []) = Dumped ''{}''"
    by (simp_all add: example_disk_def example_json_def)
  from save_journal_data_backup_then_write [of example_json ?fs "''trade-log.json''" "JObj []"
      "''[]''" "''{}''" TypeError "[]"] h
  show ?thesis by blast
qed

text \<open>
  C8. The size class of a bubble depends on the usage count only, with the boundaries of
  the claim: count 0 gives the smallest class (the spec's tier \<open>none\<close>), counts 1 and 2 the
  second (\<open>low\<close>), counts 3 to 5 the third (\<open>medium\<close>), counts from 6 on the largest (\<open>high\<close>).
  The last conjunct says that two lookups with the same count, in whatever statistics,
  category and value, get the same class.
\<close>

theorem get_bubble_size_tiers:
  "(usage_count stats c i = 0 \<longrightarrow> get_bubble_size stats c i = ''bubble-small'') \<and>
   (1 \<le> usage_count stats c i \<and> usage_count stats c i \<le> 2 \<longrightarrow>
      get_bubble_size stats c i = ''bubble-medium'') \<and>
   (3 \<le> usage_count stats c i \<and> usage_count stats c i \<le> 5 \<longrightarrow>
      get_bubble_size stats c i = ''bubble-large'') \<and>
   (6 \<le> usage_count stats c i \<longrightarrow> get_bubble_size stats c i = ''bubble-xlarge'') \<and>
   (usage_count stats' c' i' = usage_count stats c i \<longrightarrow>
      get_bubble_size stats' c' i' = get_bubble_size stats c i)"
  by (simp add: get_bubble_size_def Let_def)

theorem get_bubble_size_tiers_witness:
  "get_bubble_size Map.empty ''triggers'' ''Panic'' = ''bubble-small'' \<and>
   get_bubble_size [''triggers'' \<mapsto> [''Panic'' \<mapsto> 2]] ''triggers'' ''Panic'' = ''bubble-medium'' \<and>
   get_bubble_size [''triggers'' \<mapsto> [''Panic'' \<mapsto> 5]] ''triggers'' ''Panic'' = ''bubble-large'' \<and>
   get_bubble_size [''triggers'' \<mapsto> [''Panic'' \<mapsto> 6]] ''triggers'' ''Panic'' = ''bubble-xlarge''"
proof -
  let ?s = "\<lambda>n::int. [''triggers'' \<mapsto> [''Panic'' \<mapsto> n]]"
  have c: "usage_count Map.empty ''triggers'' ''Panic'' = 0"
    "usage_count (?s n) ''triggers'' ''Panic'' = n" for n
    by (simp_all add: usage_count_def)
  have "get_bubble_size Map.empty ''triggers'' ''Panic'' = ''bubble-small''"
    using get_bubble_size_tiers [of Map.empty "''triggers''" "''Panic''" Map.empty "''triggers''" "''Panic''"]
    by (simp only: c simp_thms)
  moreover have "get_bubble_size (?s 2) ''triggers'' ''Panic'' = ''bubble-medium''"
    using get_bubble_size_tiers [of "?s 2" "''triggers''" "''Panic''" "?s 2" "''triggers''" "''Panic''"]
    unfolding c by linarith
  moreover have "get_bubble_size (?s 5) ''triggers'' ''Panic'' = ''bubble-large''"
    using get_bubble_size_tiers [of "?s 5" "''triggers''" "''Panic''" "?s 5" "''triggers''" "''Panic''"]
    unfolding c by linarith
  moreover have "get_bubble_size (?s 6) ''triggers'' ''Panic'' = ''bubble-xlarge''"
    using get_bubble_size_tiers [of "?s 6" "''triggers''" "''Panic''" "?s 6" "''triggers''" "''Panic''"]
    unfolding c by linarith
  ultimately show ?thesis by blast
qed







end
